theory Spec2Isabelle
  imports Main "HOL-Library.Word"
begin

unbundle bit_operations_syntax

section \<open>Python values\<close>

text \<open>
  The client (\<^verbatim>\<open>wedos_api/api.py\<close>, \<^verbatim>\<open>wedos_api/models.py\<close>) handles
  strings, integers and the values that \<^verbatim>\<open>json\<close> decodes. A Python \<^verbatim>\<open>str\<close> is
  modelled as a \<^typ>\<open>string\<close>, one character per code point below 256. The library
  functions below are exact on ASCII text; \<^verbatim>\<open>str.upper\<close> is modelled on the ASCII
  letters only (above 127 Python consults the Unicode tables). Floating-point numbers are
  not part of the model: a decoded JSON value is \<^verbatim>\<open>None\<close>, a \<^verbatim>\<open>bool\<close>, an
  \<^verbatim>\<open>int\<close>, a \<^verbatim>\<open>str\<close>, a \<^verbatim>\<open>list\<close> or a \<^verbatim>\<open>dict\<close>. A \<^verbatim>\<open>dict\<close> is the
  list of its items in insertion order (the keys of a dict are distinct).
\<close>

datatype json =
    JNull
  | JBool bool
  | JInt int
  | JStr string
  | JArr "json list"
  | JObj "(string \<times> json) list"

text \<open>
  The exceptions that can leave the client: \<^verbatim>\<open>WAPIError\<close> (with its message), the
  built-in \<^verbatim>\<open>KeyError\<close> (with the missing key), \<^verbatim>\<open>TypeError\<close>,
  \<^verbatim>\<open>ValueError\<close>, \<^verbatim>\<open>AttributeError\<close>, and whatever \<^verbatim>\<open>requests.post\<close> or
  \<^verbatim>\<open>Response.json\<close> raise (\<open>TransportError\<close>, with the name of the exception).
\<close>

datatype error =
    WAPIError string
  | KeyError string
  | TypeError
  | ValueError
  | AttributeError
  | TransportError string

text \<open>Sequencing of two steps of which the first may raise.\<close>

definition and_then :: "error + 'a \<Rightarrow> ('a \<Rightarrow> error + 'b) \<Rightarrow> error + 'b" where
  "and_then m f = (case m of Inl e \<Rightarrow> Inl e | Inr x \<Rightarrow> f x)"

subsection \<open>Characters and numbers as text\<close>

definition is_digit :: "char \<Rightarrow> bool" where
  "is_digit c = (c \<in> set ''0123456789'')"

definition digit_val :: "char \<Rightarrow> nat" where
  "digit_val c = of_char c - 48"

definition digit_char :: "nat \<Rightarrow> char" where
  "digit_char n = ''0123456789'' ! n"

definition hex_digit :: "nat \<Rightarrow> char" where
  "hex_digit n = ''0123456789abcdef'' ! n"

definition hex2 :: "nat \<Rightarrow> string" where
  "hex2 n = [hex_digit (n div 16 mod 16), hex_digit (n mod 16)]"

text \<open>\<^verbatim>\<open>str(n)\<close> for an integer: decimal digits, a minus sign when negative.\<close>

function str_nat :: "nat \<Rightarrow> string" where
  "str_nat n = (if n < 10 then [digit_char n] else str_nat (n div 10) @ [digit_char (n mod 10)])"
  by pat_completeness auto
termination
  by (relation "measure id") auto

declare str_nat.simps [simp del]

definition str_int :: "int \<Rightarrow> string" where
  "str_int i = (if i < 0 then CHR ''-'' # str_nat (nat (- i)) else str_nat (nat i))"

text \<open>\<^verbatim>\<open>'%02d' % n\<close>, as \<^verbatim>\<open>strftime\<close> prints months, days, hours, minutes, seconds.\<close>

definition pad2 :: "nat \<Rightarrow> string" where
  "pad2 n = [digit_char (n div 10 mod 10), digit_char (n mod 10)]"

text \<open>\<^verbatim>\<open>s.startswith(p)\<close> and \<^verbatim>\<open>sep.join(xs)\<close>.\<close>

definition startswith :: "string \<Rightarrow> string \<Rightarrow> bool" where
  "startswith s p = (take (length p) s = p)"

fun join :: "string \<Rightarrow> string list \<Rightarrow> string" where
  "join sep [] = []"
| "join sep [x] = x"
| "join sep (x # y # ys) = x @ sep @ join sep (y # ys)"

text \<open>\<^verbatim>\<open>s.upper()\<close> on ASCII text.\<close>

definition upper_char :: "char \<Rightarrow> char" where
  "upper_char c =
     (case map_of (zip ''abcdefghijklmnopqrstuvwxyz'' ''ABCDEFGHIJKLMNOPQRSTUVWXYZ'') c of
        Some u \<Rightarrow> u
      | None \<Rightarrow> c)"

definition upper :: "string \<Rightarrow> string" where
  "upper s = map upper_char s"

text \<open>
  \<^verbatim>\<open>repr(s)\<close> of a string: single quotes unless the text holds a single quote and no
  double quote; the quote and the backslash escaped, tab, newline and carriage return by
  letter, every other unprintable character as \<^verbatim>\<open>\xhh\<close>.
\<close>

definition printable :: "char \<Rightarrow> bool" where
  "printable c =
     (let n = (of_char c :: nat)
      in (32 \<le> n \<and> n \<le> 126) \<or> (161 \<le> n \<and> n \<noteq> 173))"

definition repr_char :: "char \<Rightarrow> char \<Rightarrow> string" where
  "repr_char q c =
     (if c = q \<or> c = CHR 0x5C then [CHR 0x5C, c]
      else if c = CHR 0x09 then [CHR 0x5C, CHR ''t'']
      else if c = CHR 0x0A then [CHR 0x5C, CHR ''n'']
      else if c = CHR 0x0D then [CHR 0x5C, CHR ''r'']
      else if \<not> printable c then [CHR 0x5C, CHR ''x''] @ hex2 (of_char c)
      else [c])"

definition repr_str :: "string \<Rightarrow> string" where
  "repr_str s =
     (let q = (if CHR 0x27 \<in> set s \<and> CHR 0x22 \<notin> set s then CHR 0x22 else CHR 0x27)
      in [q] @ concat (map (repr_char q) s) @ [q])"

text \<open>\<^verbatim>\<open>repr(v)\<close> and \<^verbatim>\<open>str(v)\<close> of a decoded value.\<close>

primrec repr :: "json \<Rightarrow> string" where
  "repr JNull = ''None''"
| "repr (JBool b) = (if b then ''True'' else ''False'')"
| "repr (JInt i) = str_int i"
| "repr (JStr s) = repr_str s"
| "repr (JArr xs) = ''['' @ join '', '' (map repr xs) @ '']''"
| "repr (JObj kvs) =
     ''{'' @ join '', '' (map (\<lambda>kv. repr_str (fst kv) @ '': '' @ snd kv) (map (map_prod id repr) kvs))
       @ ''}''"

definition str :: "json \<Rightarrow> string" where
  "str v = (case v of JStr s \<Rightarrow> s | _ \<Rightarrow> repr v)"

text \<open>
  \<^verbatim>\<open>json.dumps(v)\<close> with its defaults: \<^verbatim>\<open>ensure_ascii\<close>, separators
  \<^verbatim>\<open>', '\<close> and \<^verbatim>\<open>': '\<close>.
\<close>

definition dumps_char :: "char \<Rightarrow> string" where
  "dumps_char c =
     (if c = CHR 0x22 then [CHR 0x5C, CHR 0x22]
      else if c = CHR 0x5C then [CHR 0x5C, CHR 0x5C]
      else if c = CHR 0x0A then [CHR 0x5C, CHR ''n'']
      else if c = CHR 0x0D then [CHR 0x5C, CHR ''r'']
      else if c = CHR 0x09 then [CHR 0x5C, CHR ''t'']
      else if c = CHR 0x08 then [CHR 0x5C, CHR ''b'']
      else if c = CHR 0x0C then [CHR 0x5C, CHR ''f'']
      else if (of_char c :: nat) < 32 \<or> 126 < (of_char c :: nat)
        then [CHR 0x5C, CHR ''u'', CHR ''0'', CHR ''0''] @ hex2 (of_char c)
      else [c])"

definition dumps_str :: "string \<Rightarrow> string" where
  "dumps_str s = [CHR 0x22] @ concat (map dumps_char s) @ [CHR 0x22]"

primrec dumps :: "json \<Rightarrow> string" where
  "dumps JNull = ''null''"
| "dumps (JBool b) = (if b then ''true'' else ''false'')"
| "dumps (JInt i) = str_int i"
| "dumps (JStr s) = dumps_str s"
| "dumps (JArr xs) = ''['' @ join '', '' (map dumps xs) @ '']''"
| "dumps (JObj kvs) =
     ''{'' @ join '', '' (map (\<lambda>kv. dumps_str (fst kv) @ '': '' @ snd kv) (map (map_prod id dumps) kvs))
       @ ''}''"

subsection \<open>Operations on decoded values\<close>

text \<open>Truth value of a value in a condition (\<^verbatim>\<open>if not request_data\<close>).\<close>

fun truthy :: "json \<Rightarrow> bool" where
  "truthy JNull = False"
| "truthy (JBool b) = b"
| "truthy (JInt i) = (i \<noteq> 0)"
| "truthy (JStr s) = (s \<noteq> [])"
| "truthy (JArr xs) = (xs \<noteq> [])"
| "truthy (JObj kvs) = (kvs \<noteq> [])"

text \<open>
  \<^verbatim>\<open>v[key]\<close> with a string key: the item of a dict, \<^verbatim>\<open>KeyError\<close> when the dict
  lacks the key, \<^verbatim>\<open>TypeError\<close> on every other value.
\<close>

fun subscript :: "json \<Rightarrow> string \<Rightarrow> error + json" where
  "subscript (JObj kvs) k = (case map_of kvs k of Some v \<Rightarrow> Inr v | None \<Rightarrow> Inl (KeyError k))"
| "subscript _ k = Inl TypeError"

text \<open>\<^verbatim>\<open>v.get(key, default)\<close>: only a dict has the method.\<close>

fun get :: "json \<Rightarrow> string \<Rightarrow> json \<Rightarrow> error + json" where
  "get (JObj kvs) k d = (case map_of kvs k of Some v \<Rightarrow> Inr v | None \<Rightarrow> Inr d)"
| "get _ k d = Inl AttributeError"

text \<open>\<^verbatim>\<open>v.values()\<close>: only a dict has the method.\<close>

fun values_of :: "json \<Rightarrow> error + json list" where
  "values_of (JObj kvs) = Inr (map snd kvs)"
| "values_of _ = Inl AttributeError"

text \<open>
  The elements that iterating over a value yields: those of a list, the characters of a
  string, the keys of a dict; \<^verbatim>\<open>TypeError\<close> for a value that is not iterable.
\<close>

fun iter :: "json \<Rightarrow> error + json list" where
  "iter (JArr xs) = Inr xs"
| "iter (JStr s) = Inr (map (\<lambda>c. JStr [c]) s)"
| "iter (JObj kvs) = Inr (map (\<lambda>kv. JStr (fst kv)) kvs)"
| "iter _ = Inl TypeError"

text \<open>
  \<^verbatim>\<open>int(s)\<close> for a string: surrounding whitespace is dropped, then an optional sign
  and decimal digits, single underscores allowed between digits. (The interpreter's
  configurable limit on the number of digits is not modelled.)
\<close>

definition int_space :: "char \<Rightarrow> bool" where
  "int_space c = ((of_char c :: nat) \<in> set [9, 10, 11, 12, 13, 32, 133, 160])"

fun digits_acc :: "nat \<Rightarrow> bool \<Rightarrow> string \<Rightarrow> nat option" where
  "digits_acc acc ok [] = (if ok then Some acc else None)"
| "digits_acc acc ok (c # cs) =
     (if is_digit c then digits_acc (10 * acc + digit_val c) True cs
      else if c = CHR ''_'' \<and> ok then digits_acc acc False cs
      else None)"

definition int_of_str :: "string \<Rightarrow> error + int" where
  "int_of_str s =
     (let t = rev (dropWhile int_space (rev (dropWhile int_space s)));
          neg = (t \<noteq> [] \<and> hd t = CHR ''-'');
          u = (if t \<noteq> [] \<and> (hd t = CHR ''-'' \<or> hd t = CHR ''+'') then tl t else t)
      in case digits_acc 0 False u of
           None \<Rightarrow> Inl ValueError
         | Some n \<Rightarrow> Inr (if neg then - int n else int n))"

text \<open>\<^verbatim>\<open>int(v)\<close> for a decoded value.\<close>

fun int_of :: "json \<Rightarrow> error + int" where
  "int_of (JInt i) = Inr i"
| "int_of (JBool b) = Inr (if b then 1 else 0)"
| "int_of (JStr s) = int_of_str s"
| "int_of _ = Inl TypeError"

text \<open>\<^verbatim>\<open>v.upper()\<close>: only a string has the method.\<close>

fun upper_of :: "json \<Rightarrow> error + string" where
  "upper_of (JStr s) = Inr (upper s)"
| "upper_of _ = Inl AttributeError"

subsection \<open>Dates\<close>

text \<open>
  A \<^verbatim>\<open>datetime\<close> without time zone; the microseconds play no part in the formats
  used. \<open>date_format\<close> is the class constant \<^verbatim>\<open>WAPI.date_format\<close>,
  \<^verbatim>\<open>'%Y-%m-%d %H:%M:%S'\<close>; \<open>strptime\<close> and \<open>strftime\<close> are the library functions
  at that format.
\<close>

record datetime =
  year :: nat
  month :: nat
  day :: nat
  hour :: nat
  minute :: nat
  second :: nat

definition date_format :: string where
  "date_format = ''%Y-%m-%d %H:%M:%S''"

definition is_leap :: "nat \<Rightarrow> bool" where
  "is_leap y = (y mod 4 = 0 \<and> (y mod 100 \<noteq> 0 \<or> y mod 400 = 0))"

definition days_in_month :: "nat \<Rightarrow> nat \<Rightarrow> nat" where
  "days_in_month y m =
     (if m = 2 then (if is_leap y then 29 else 28)
      else if m \<in> set [4, 6, 9, 11] then 30 else 31)"

text \<open>
  The library turns the format into a regular expression, one group per directive, and
  matches it at the start of the text. A group is an ordered choice; each function below
  lists the ways a group can match, the preferred first, with the text left over, so
  that backtracking is the search for the first way through all groups.
\<close>

definition re_space :: "char \<Rightarrow> bool" where
  "re_space c = ((of_char c :: nat) \<in> set [9, 10, 11, 12, 13, 28, 29, 30, 31, 32, 133, 160])"

definition pat1 :: "(char \<Rightarrow> bool) \<Rightarrow> string \<Rightarrow> (nat \<times> string) list" where
  "pat1 P s = (case s of c # r \<Rightarrow> if P c then [(digit_val c, r)] else [] | _ \<Rightarrow> [])"

definition pat2 :: "(char \<Rightarrow> bool) \<Rightarrow> (char \<Rightarrow> bool) \<Rightarrow> string \<Rightarrow> (nat \<times> string) list" where
  "pat2 P Q s =
     (case s of
        c # d # r \<Rightarrow> if P c \<and> Q d then [(10 * digit_val c + digit_val d, r)] else []
      | _ \<Rightarrow> [])"

definition one_of :: "string \<Rightarrow> char \<Rightarrow> bool" where
  "one_of cs c = (c \<in> set cs)"

definition lit :: "char \<Rightarrow> string \<Rightarrow> string list" where
  "lit x s = (case s of c # r \<Rightarrow> if c = x then [r] else [] | _ \<Rightarrow> [])"

text \<open>\<^verbatim>\<open>%Y\<close> is \<^verbatim>\<open>\d\d\d\d\<close>.\<close>

definition group_Y :: "string \<Rightarrow> (nat \<times> string) list" where
  "group_Y s =
     (case s of
        a # b # c # d # r \<Rightarrow>
          if is_digit a \<and> is_digit b \<and> is_digit c \<and> is_digit d
          then [(1000 * digit_val a + 100 * digit_val b + 10 * digit_val c + digit_val d, r)]
          else []
      | _ \<Rightarrow> [])"

text \<open>\<^verbatim>\<open>%m\<close> is \<^verbatim>\<open>1[0-2]|0[1-9]|[1-9]\<close>.\<close>

definition group_m :: "string \<Rightarrow> (nat \<times> string) list" where
  "group_m s =
     pat2 (one_of ''1'') (one_of ''012'') s @ pat2 (one_of ''0'') (one_of ''123456789'') s
       @ pat1 (one_of ''123456789'') s"

text \<open>\<^verbatim>\<open>%d\<close> is \<^verbatim>\<open>3[0-1]|[1-2]\d|0[1-9]|[1-9]| [1-9]\<close>.\<close>

definition group_d :: "string \<Rightarrow> (nat \<times> string) list" where
  "group_d s =
     pat2 (one_of ''3'') (one_of ''01'') s @ pat2 (one_of ''12'') is_digit s
       @ pat2 (one_of ''0'') (one_of ''123456789'') s @ pat1 (one_of ''123456789'') s
       @ concat (map (pat1 (one_of ''123456789'')) (lit CHR '' '' s))"

text \<open>\<^verbatim>\<open>%H\<close> is \<^verbatim>\<open>2[0-3]|[0-1]\d|\d\<close>.\<close>

definition group_H :: "string \<Rightarrow> (nat \<times> string) list" where
  "group_H s =
     pat2 (one_of ''2'') (one_of ''0123'') s @ pat2 (one_of ''01'') is_digit s @ pat1 is_digit s"

text \<open>\<^verbatim>\<open>%M\<close> is \<^verbatim>\<open>[0-5]\d|\d\<close>.\<close>

definition group_M :: "string \<Rightarrow> (nat \<times> string) list" where
  "group_M s = pat2 (one_of ''012345'') is_digit s @ pat1 is_digit s"

text \<open>\<^verbatim>\<open>%S\<close> is \<^verbatim>\<open>6[0-1]|[0-5]\d|\d\<close>.\<close>

definition group_S :: "string \<Rightarrow> (nat \<times> string) list" where
  "group_S s =
     pat2 (one_of ''6'') (one_of ''01'') s @ pat2 (one_of ''012345'') is_digit s @ pat1 is_digit s"

text \<open>The blank of the format is \<^verbatim>\<open>\s+\<close>: as many blanks as possible first.\<close>

definition blanks :: "string \<Rightarrow> string list" where
  "blanks s = map (\<lambda>k. drop k s) (rev [1..<Suc (length (takeWhile re_space s))])"

text \<open>All ways to match the whole expression, in the order the matcher tries them.\<close>

definition date_matches :: "string \<Rightarrow> (datetime \<times> string) list" where
  "date_matches s =
     [(\<lparr>year = y, month = m, day = d, hour = H, minute = M, second = S\<rparr>, r11).
        (y, r1) \<leftarrow> group_Y s, r2 \<leftarrow> lit CHR ''-'' r1,
        (m, r3) \<leftarrow> group_m r2, r4 \<leftarrow> lit CHR ''-'' r3,
        (d, r5) \<leftarrow> group_d r4, r6 \<leftarrow> blanks r5,
        (H, r7) \<leftarrow> group_H r6, r8 \<leftarrow> lit CHR '':'' r7,
        (M, r9) \<leftarrow> group_M r8, r10 \<leftarrow> lit CHR '':'' r9,
        (S, r11) \<leftarrow> group_S r10]"

text \<open>
  \<^verbatim>\<open>datetime.strptime(s, WAPI.date_format)\<close>: \<^verbatim>\<open>ValueError\<close> when the text does
  not match, when text is left after the match, and when the fields are no date and
  time (year 0, a day the month does not have, second 60 or 61).
\<close>

definition strptime :: "string \<Rightarrow> error + datetime" where
  "strptime s =
     (case date_matches s of
        [] \<Rightarrow> Inl ValueError
      | (t, r) # _ \<Rightarrow>
          if r \<noteq> [] then Inl ValueError
          else if year t < 1 \<or> days_in_month (year t) (month t) < day t \<or> 59 < second t
            then Inl ValueError
          else Inr t)"

text \<open>\<^verbatim>\<open>datetime.strptime(v, \<dots>)\<close> for a decoded value: \<^verbatim>\<open>TypeError\<close> unless a string.\<close>

fun strptime_of :: "json \<Rightarrow> error + datetime" where
  "strptime_of (JStr s) = strptime s"
| "strptime_of _ = Inl TypeError"

text \<open>
  \<^verbatim>\<open>t.strftime(WAPI.date_format)\<close>. The C library prints \<^verbatim>\<open>%Y\<close> as the plain
  decimal year and the other fields on two digits.
\<close>

definition strftime :: "datetime \<Rightarrow> string" where
  "strftime t =
     str_nat (year t) @ ''-'' @ pad2 (month t) @ ''-'' @ pad2 (day t) @ '' '' @ pad2 (hour t)
       @ '':'' @ pad2 (minute t) @ '':'' @ pad2 (second t)"

text \<open>\<^verbatim>\<open>t.strftime('%H')\<close>: the hour on two digits.\<close>

definition strftime_H :: "datetime \<Rightarrow> string" where
  "strftime_H t = pad2 (hour t)"

section \<open>SHA-1\<close>

text \<open>
  \<^verbatim>\<open>hashlib.sha1(data).hexdigest()\<close>, after FIPS 180-4: the message is padded to
  whole blocks of 64 bytes, each block is read as sixteen big-endian 32-bit words and
  run through eighty rounds, and the five state words are printed in lowercase
  hexadecimal. The message schedule is kept as a window of sixteen words that slides by
  one word per round.
\<close>

type_synonym byte = "8 word"
type_synonym u32 = "32 word"
type_synonym sha1_state = "u32 \<times> u32 \<times> u32 \<times> u32 \<times> u32"

text \<open>\<^verbatim>\<open>s.encode('utf8')\<close>: one byte below 128, two bytes from 128 to 255.\<close>

definition encode_char :: "char \<Rightarrow> byte list" where
  "encode_char c =
     (let n = (of_char c :: nat)
      in if n < 128 then [of_nat n] else [of_nat (192 + n div 64), of_nat (128 + n mod 64)])"

definition encode_utf8 :: "string \<Rightarrow> byte list" where
  "encode_utf8 s = concat (map encode_char s)"

definition rotl :: "nat \<Rightarrow> u32 \<Rightarrow> u32" where
  "rotl n x = push_bit n x OR drop_bit (32 - n) x"

definition be_bytes64 :: "nat \<Rightarrow> byte list" where
  "be_bytes64 n = map (\<lambda>k. of_nat (n div 2 ^ k mod 256)) [56, 48, 40, 32, 24, 16, 8, 0]"

definition sha1_pad :: "byte list \<Rightarrow> byte list" where
  "sha1_pad m =
     m @ [0x80] @ replicate ((64 - (length m + 9) mod 64) mod 64) 0 @ be_bytes64 (8 * length m)"

fun be_words :: "byte list \<Rightarrow> u32 list" where
  "be_words (b0 # b1 # b2 # b3 # bs) =
     (push_bit 24 (ucast b0) OR push_bit 16 (ucast b1) OR push_bit 8 (ucast b2) OR ucast b3)
       # be_words bs"
| "be_words _ = []"

fun blocks :: "nat \<Rightarrow> u32 list \<Rightarrow> u32 list list" where
  "blocks 0 ws = []"
| "blocks (Suc n) ws = take 16 ws # blocks n (drop 16 ws)"

definition sha1_f :: "nat \<Rightarrow> u32 \<Rightarrow> u32 \<Rightarrow> u32 \<Rightarrow> u32" where
  "sha1_f t b c d =
     (if t < 20 then (b AND c) OR (NOT b AND d)
      else if t < 40 then b XOR c XOR d
      else if t < 60 then (b AND c) OR (b AND d) OR (c AND d)
      else b XOR c XOR d)"

definition sha1_k :: "nat \<Rightarrow> u32" where
  "sha1_k t =
     (if t < 20 then 0x5A827999 else if t < 40 then 0x6ED9EBA1
      else if t < 60 then 0x8F1BBCDC else 0xCA62C1D6)"

fun sha1_round :: "u32 list \<times> sha1_state \<Rightarrow> nat \<Rightarrow> u32 list \<times> sha1_state" where
  "sha1_round (w, (a, b, c, d, e)) t =
     (tl w @ [rotl 1 (w ! 13 XOR w ! 8 XOR w ! 2 XOR w ! 0)],
      (rotl 5 a + sha1_f t b c d + e + sha1_k t + w ! 0, a, rotl 30 b, c, d))"

fun sha1_add :: "sha1_state \<Rightarrow> sha1_state \<Rightarrow> sha1_state" where
  "sha1_add (h0, h1, h2, h3, h4) (a, b, c, d, e) = (h0 + a, h1 + b, h2 + c, h3 + d, h4 + e)"

definition sha1_block :: "sha1_state \<Rightarrow> u32 list \<Rightarrow> sha1_state" where
  "sha1_block h w = sha1_add h (snd (foldl sha1_round (w, h) [0..<80]))"

definition sha1_init :: sha1_state where
  "sha1_init = (0x67452301, 0xEFCDAB89, 0x98BADCFE, 0x10325476, 0xC3D2E1F0)"

definition sha1 :: "byte list \<Rightarrow> sha1_state" where
  "sha1 m =
     (let ws = be_words (sha1_pad m)
      in foldl sha1_block sha1_init (blocks (length ws div 16) ws))"

definition hex32 :: "u32 \<Rightarrow> string" where
  "hex32 x = map (\<lambda>k. hex_digit (unat (drop_bit k x AND 15))) [28, 24, 20, 16, 12, 8, 4, 0]"

fun hexdigest :: "sha1_state \<Rightarrow> string" where
  "hexdigest (a, b, c, d, e) = hex32 a @ hex32 b @ hex32 c @ hex32 d @ hex32 e"

definition sha1_hex :: "string \<Rightarrow> string" where
  "sha1_hex s = hexdigest (sha1 (encode_utf8 s))"

section \<open>The models (\<^verbatim>\<open>models.py\<close>)\<close>

text \<open>
  The named tuples and enums of \<^verbatim>\<open>models.py\<close>. Field names are the source's, with
  the prefixes \<open>req_\<close>, \<open>resp_\<close> and \<open>rec_\<close> that tell the fields of
  \<^verbatim>\<open>WAPIRequest\<close>, \<^verbatim>\<open>WAPIResponse\<close> and \<^verbatim>\<open>WAPIDomainRecord\<close> apart. The
  annotations of the source are not checked at run time: a field filled from the decoded
  response holds whatever value the response has there.
\<close>

record WAPIRequest =
  req_user :: string
  req_auth :: string
  req_command :: string
  req_command_id :: "string option"
  req_data :: "json option"
  req_test :: bool

record WAPIResponse =
  resp_code :: json
  resp_result :: json
  resp_timestamp :: json
  resp_command_id :: json
  resp_server_command_id :: json
  resp_command :: json
  resp_data :: json
  resp_test :: bool

datatype WAPIDomainStatus = ACTIVE

datatype WAPIDomainRecordType = A | AAAA | MX | SSHFP | TXT

record WAPIDomainRecord =
  rec_id :: int
  rec_name :: json
  rec_ttl :: int
  rec_record_type :: WAPIDomainRecordType
  rec_content :: json
  rec_changed :: datetime
  rec_author_comment :: json

text \<open>\<^verbatim>\<open>__members__.items()\<close> of the two enums, in definition order, and \<^verbatim>\<open>.value\<close>.\<close>

definition WAPIDomainStatus_members :: "(string \<times> WAPIDomainStatus) list" where
  "WAPIDomainStatus_members = [(''ACTIVE'', ACTIVE)]"

definition WAPIDomainRecordType_members :: "(string \<times> WAPIDomainRecordType) list" where
  "WAPIDomainRecordType_members =
     [(''A'', A), (''AAAA'', AAAA), (''MX'', MX), (''SSHFP'', SSHFP), (''TXT'', TXT)]"

fun status_value :: "WAPIDomainStatus \<Rightarrow> string" where
  "status_value ACTIVE = ''ACTIVE''"

fun record_type_value :: "WAPIDomainRecordType \<Rightarrow> string" where
  "record_type_value A = ''A''"
| "record_type_value AAAA = ''AAAA''"
| "record_type_value MX = ''MX''"
| "record_type_value SSHFP = ''SSHFP''"
| "record_type_value TXT = ''TXT''"

section \<open>The client (\<^verbatim>\<open>api.py\<close>)\<close>

subsection \<open>Objects and the outside world\<close>

text \<open>
  A \<^verbatim>\<open>WAPI\<close> instance has the private fields \<^verbatim>\<open>__key\<close>, \<^verbatim>\<open>__user\<close> and
  \<^verbatim>\<open>__test_mode\<close>. A \<^verbatim>\<open>WAPIDomain\<close> keeps a reference to the client that made it
  (\<^verbatim>\<open>__api\<close>), so clients live in a store, addressed by reference, and a method takes
  the reference \<open>self\<close>. A \<^verbatim>\<open>WAPIDomain\<close> is never modified after its construction
  and is a plain value.

  The world outside the client is the store, the clock that \<^verbatim>\<open>datetime.now()\<close>
  reads, the log of the HTTP posts made so far (URL and form data), and the endpoint:
  what \<^verbatim>\<open>requests.post(url, data=form).json()\<close> gives for a post after a history of
  posts: the decoded body, or the exception raised on the way.
\<close>

record WAPI =
  wapi_key :: string
  wapi_user :: string
  wapi_test_mode :: bool

record WAPIDomain =
  dom_api :: nat
  dom_domain :: json
  dom_is_primary :: "bool option"
  dom_status :: "WAPIDomainStatus option"

type_synonym http_post = "string \<times> (string \<times> string) list"

record world =
  objects :: "nat \<Rightarrow> WAPI"
  allocated :: nat
  now :: datetime
  posted :: "http_post list"
  endpoint :: "http_post list \<Rightarrow> http_post \<Rightarrow> string + json"

definition post :: "http_post \<Rightarrow> world \<Rightarrow> (error + json) \<times> world" where
  "post p w =
     ((case endpoint w (posted w) p of Inl exn \<Rightarrow> Inl (TransportError exn) | Inr body \<Rightarrow> Inr body),
      w\<lparr>posted := posted w @ [p]\<rparr>)"

subsection \<open>\<^verbatim>\<open>class WAPI\<close>\<close>

text \<open>\<^verbatim>\<open>WAPI(user, key)\<close>: a new client in the store; the result is its reference.\<close>

definition WAPI_init :: "string \<Rightarrow> string \<Rightarrow> world \<Rightarrow> nat \<times> world" where
  "WAPI_init user key w =
     (allocated w,
      w\<lparr>objects := (objects w)
           (allocated w := \<lparr>wapi_key = key, wapi_user = user, wapi_test_mode = False\<rparr>),
        allocated := Suc (allocated w)\<rparr>)"

definition set_test_mode :: "nat \<Rightarrow> bool \<Rightarrow> world \<Rightarrow> world" where
  "set_test_mode self enabled w =
     w\<lparr>objects := (objects w)(self := (objects w self)\<lparr>wapi_test_mode := enabled\<rparr>)\<rparr>"

definition get_auth :: "nat \<Rightarrow> world \<Rightarrow> string" where
  "get_auth self w =
     sha1_hex (wapi_user (objects w self) @ sha1_hex (wapi_key (objects w self))
               @ strftime_H (now w))"

text \<open>The dictionary that \<^verbatim>\<open>make_request\<close> hands to \<^verbatim>\<open>json.dumps\<close> (lines 70 to 77).\<close>

definition request_document :: "WAPIRequest \<Rightarrow> json" where
  "request_document request =
     JObj [(''request'', JObj [
       (''command'', JStr (req_command request)),
       (''auth'', JStr (req_auth request)),
       (''user'', JStr (req_user request)),
       (''test'', JInt (if req_test request then 1 else 0)),
       (''data'', (case req_data request of None \<Rightarrow> JNull | Some d \<Rightarrow> d)),
       (''clTRID'', JStr (req_command request))])]"

text \<open>What \<^verbatim>\<open>make_request\<close> does with the response envelope (lines 80 to 91).\<close>

definition decode_response :: "json \<Rightarrow> error + WAPIResponse" where
  "decode_response resp =
     and_then (get resp ''code'' (JStr ''3000'')) (\<lambda>c.
       if startswith (str c) ''1'' then
         and_then (subscript resp ''code'') (\<lambda>v_code.
         and_then (subscript resp ''result'') (\<lambda>v_result.
         and_then (subscript resp ''timestamp'') (\<lambda>v_timestamp.
         and_then (subscript resp ''clTRID'') (\<lambda>v_command_id.
         and_then (subscript resp ''svTRID'') (\<lambda>v_server_command_id.
         and_then (subscript resp ''command'') (\<lambda>v_command.
         and_then (get resp ''data'' JNull) (\<lambda>v_data.
         and_then (get resp ''test'' (JInt 0)) (\<lambda>v_test.
         and_then (int_of v_test) (\<lambda>i.
           Inr \<lparr>resp_code = v_code, resp_result = v_result, resp_timestamp = v_timestamp,
                resp_command_id = v_command_id,
                resp_server_command_id = v_server_command_id,
                resp_command = v_command, resp_data = v_data, resp_test = (i = 1)\<rparr>)))))))))
       else Inl (WAPIError (''WAPI error: '' @ dumps resp)))"

text \<open>The request tuple (lines 59 to 66) and the post made for it (lines 68 to 77).\<close>

definition build_request ::
  "nat \<Rightarrow> string \<Rightarrow> json option \<Rightarrow> string option \<Rightarrow> world \<Rightarrow> WAPIRequest"
where
  "build_request self command data command_id w =
     \<lparr>req_user = wapi_user (objects w self), req_auth = get_auth self w,
      req_command = command, req_command_id = command_id, req_data = data,
      req_test = wapi_test_mode (objects w self)\<rparr>"

definition wire_post :: "WAPIRequest \<Rightarrow> http_post" where
  "wire_post request =
     (''https://api.wedos.com/wapi/json'', [(''request'', dumps (request_document request))])"

definition make_request ::
  "nat \<Rightarrow> string \<Rightarrow> json option \<Rightarrow> string option \<Rightarrow> world \<Rightarrow> (error + WAPIResponse) \<times> world"
where
  "make_request self command data command_id w =
     (let request = build_request self command data command_id w
      in case post (wire_post request) w of
           (Inl e, w') \<Rightarrow> (Inl e, w')
         | (Inr body, w') \<Rightarrow> (and_then (subscript body ''response'') decode_response, w'))"

definition ping :: "nat \<Rightarrow> world \<Rightarrow> (error + bool) \<times> world" where
  "ping self w =
     (case make_request self ''ping'' None None w of
        (Inr r, w') \<Rightarrow> (Inr True, w')
      | (Inl (WAPIError m), w') \<Rightarrow> (Inr False, w')
      | (Inl e, w') \<Rightarrow> (Inl e, w'))"

definition open_domain :: "nat \<Rightarrow> string \<Rightarrow> world \<Rightarrow> WAPIDomain \<times> world" where
  "open_domain self domain w =
     (\<lparr>dom_api = self, dom_domain = JStr domain, dom_is_primary = None, dom_status = None\<rparr>, w)"

text \<open>The iteration over \<^verbatim>\<open>__members__.items()\<close> (lines 143 to 145 and 258 to 260).\<close>

fun find_member :: "(string \<times> 'a) list \<Rightarrow> string \<Rightarrow> 'a option" where
  "find_member [] s = None"
| "find_member ((v, t) # ms) s = (if v = s then Some t else find_member ms s)"

definition unknown_record_type :: "string \<Rightarrow> error" where
  "unknown_record_type s = WAPIError (''Unknown record type '' @ [CHR 0x27] @ s @ [CHR 0x27])"

definition str_to_domain_status :: "json \<Rightarrow> error + WAPIDomainStatus" where
  "str_to_domain_status domain_status_str =
     and_then (upper_of domain_status_str) (\<lambda>s.
       case find_member WAPIDomainStatus_members s of
         Some t \<Rightarrow> Inr t
       | None \<Rightarrow> Inl (unknown_record_type s))"

text \<open>
  A generator or a \<^verbatim>\<open>map\<close> object is modelled by what consuming it to the end gives:
  the list of its elements, or the first exception.
\<close>

fun map_result :: "('a \<Rightarrow> error + 'b) \<Rightarrow> 'a list \<Rightarrow> error + 'b list" where
  "map_result f [] = Inr []"
| "map_result f (x # xs) =
     and_then (f x) (\<lambda>y. and_then (map_result f xs) (\<lambda>ys. Inr (y # ys)))"

text \<open>The body of the loop of \<^verbatim>\<open>domains\<close> (lines 125 to 129).\<close>

definition domain_of_dict :: "nat \<Rightarrow> json \<Rightarrow> error + WAPIDomain" where
  "domain_of_dict self domain_dict =
     and_then (subscript domain_dict ''name'') (\<lambda>v_name.
     and_then (subscript domain_dict ''type'') (\<lambda>v_type.
     and_then (subscript domain_dict ''status'') (\<lambda>v_status.
     and_then (str_to_domain_status v_status) (\<lambda>status.
       Inr \<lparr>dom_api = self, dom_domain = v_name,
            dom_is_primary = Some (v_type = JStr ''primary''), dom_status = Some status\<rparr>))))"

definition domains :: "nat \<Rightarrow> world \<Rightarrow> (error + WAPIDomain list) \<times> world" where
  "domains self w =
     (case make_request self ''dns-domains-list'' None None w of
        (Inl e, w') \<Rightarrow> (Inl e, w')
      | (Inr r, w') \<Rightarrow>
          (let request_data = resp_data r
           in if \<not> truthy request_data then Inr []
              else and_then (subscript request_data ''domain'') (\<lambda>domains_dict.
                     if \<not> truthy domains_dict then Inr []
                     else and_then (values_of domains_dict) (map_result (domain_of_dict self))),
           w'))"

subsection \<open>\<^verbatim>\<open>class WAPIDomain\<close>\<close>

definition domain_name :: "WAPIDomain \<Rightarrow> json" where
  "domain_name d = dom_domain d"

definition str_to_record_type :: "json \<Rightarrow> error + WAPIDomainRecordType" where
  "str_to_record_type record_type_str =
     and_then (upper_of record_type_str) (\<lambda>s.
       case find_member WAPIDomainRecordType_members s of
         Some t \<Rightarrow> Inr t
       | None \<Rightarrow> Inl (unknown_record_type s))"

definition row_dict_to_row :: "json \<Rightarrow> error + WAPIDomainRecord" where
  "row_dict_to_row row_dict =
     and_then (subscript row_dict ''ID'') (\<lambda>v_id.
     and_then (int_of v_id) (\<lambda>i.
     and_then (subscript row_dict ''name'') (\<lambda>v_name.
     and_then (subscript row_dict ''ttl'') (\<lambda>v_ttl.
     and_then (int_of v_ttl) (\<lambda>t.
     and_then (subscript row_dict ''rdtype'') (\<lambda>v_rdtype.
     and_then (str_to_record_type v_rdtype) (\<lambda>rt.
     and_then (subscript row_dict ''rdata'') (\<lambda>v_rdata.
     and_then (subscript row_dict ''changed_date'') (\<lambda>v_changed.
     and_then (strptime_of v_changed) (\<lambda>ch.
     and_then (subscript row_dict ''author_comment'') (\<lambda>v_comment.
       Inr \<lparr>rec_id = i, rec_name = v_name, rec_ttl = t, rec_record_type = rt,
            rec_content = v_rdata, rec_changed = ch, rec_author_comment = v_comment\<rparr>)))))))))))"

definition records :: "WAPIDomain \<Rightarrow> world \<Rightarrow> (error + WAPIDomainRecord list) \<times> world" where
  "records d w =
     (case make_request (dom_api d) ''dns-rows-list''
             (Some (JObj [(''domain'', dom_domain d)])) None w of
        (Inl e, w') \<Rightarrow> (Inl e, w')
      | (Inr r, w') \<Rightarrow>
          (let request_data = resp_data r
           in if \<not> truthy request_data then Inr []
              else and_then (subscript request_data ''row'') (\<lambda>records_str.
                     if \<not> truthy records_str then Inr []
                     else and_then (iter records_str) (map_result row_dict_to_row)),
           w'))"

text \<open>The body of the loop of \<^verbatim>\<open>records_as_dict\<close> (lines 198 to 201).\<close>

definition record_as_dict :: "WAPIDomainRecord \<Rightarrow> json" where
  "record_as_dict x =
     JObj [(''id'', JInt (rec_id x)), (''name'', rec_name x), (''ttl'', JInt (rec_ttl x)),
           (''record_type'', JStr (record_type_value (rec_record_type x))),
           (''content'', rec_content x), (''changed'', JStr (strftime (rec_changed x))),
           (''author_comment'', rec_author_comment x)]"

definition records_as_dict :: "WAPIDomain \<Rightarrow> world \<Rightarrow> (error + json list) \<times> world" where
  "records_as_dict d w =
     (case records d w of
        (Inl e, w') \<Rightarrow> (Inl e, w')
      | (Inr rs, w') \<Rightarrow> (Inr (map record_as_dict rs), w'))"

text \<open>
  \<^verbatim>\<open>add_record\<close> takes the time to live as an argument; the default 1800 of the
  source is the caller's to pass.
\<close>

definition add_record ::
  "WAPIDomain \<Rightarrow> string \<Rightarrow> WAPIDomainRecordType \<Rightarrow> string \<Rightarrow> int \<Rightarrow> world \<Rightarrow> (error + unit) \<times> world"
where
  "add_record d name record_type content ttl w =
     (case make_request (dom_api d) ''dns-row-add''
             (Some (JObj [(''domain'', dom_domain d), (''name'', JStr name), (''ttl'', JInt ttl),
                          (''type'', JStr (record_type_value record_type)),
                          (''rdata'', JStr content)])) None w of
        (Inl e, w') \<Rightarrow> (Inl e, w')
      | (Inr r, w') \<Rightarrow> (Inr (), w'))"

definition remove_record :: "WAPIDomain \<Rightarrow> WAPIDomainRecord \<Rightarrow> world \<Rightarrow> (error + unit) \<times> world" where
  "remove_record d record w =
     (case make_request (dom_api d) ''dns-row-delete''
             (Some (JObj [(''domain'', dom_domain d), (''row_id'', JInt (rec_id record))]))
             None w of
        (Inl e, w') \<Rightarrow> (Inl e, w')
      | (Inr r, w') \<Rightarrow> (Inr (), w'))"

definition commit :: "WAPIDomain \<Rightarrow> world \<Rightarrow> (error + unit) \<times> world" where
  "commit d w =
     (case make_request (dom_api d) ''dns-domain-commit''
             (Some (JObj [(''name'', dom_domain d)])) None w of
        (Inl e, w') \<Rightarrow> (Inl e, w')
      | (Inr r, w') \<Rightarrow> (Inr (), w'))"

section \<open>The reply to a request\<close>

text \<open>
  What the endpoint answers to the post that \<^verbatim>\<open>make_request\<close> makes for the given
  arguments in the given world.
\<close>

definition reply_to ::
  "nat \<Rightarrow> string \<Rightarrow> json option \<Rightarrow> string option \<Rightarrow> world \<Rightarrow> string + json"
where
  "reply_to self command data command_id w =
     endpoint w (posted w) (wire_post (build_request self command data command_id w))"

section \<open>Example worlds\<close>

text \<open>
  A world with one client, user \<^verbatim>\<open>alice\<close> with key \<^verbatim>\<open>secret\<close>, at reference 0,
  at nine in the morning, whose endpoint gives the same reply to every post.
\<close>

definition example_client :: WAPI where
  "example_client = \<lparr>wapi_key = ''secret'', wapi_user = ''alice'', wapi_test_mode = False\<rparr>"

definition example_world :: "string + json \<Rightarrow> world" where
  "example_world reply =
     \<lparr>objects = (\<lambda>r. example_client), allocated = 1,
      now = \<lparr>year = 2024, month = 1, day = 1, hour = 9, minute = 30, second = 0\<rparr>,
      posted = [], endpoint = (\<lambda>history p. reply)\<rparr>"

text \<open>The reply whose body holds the given response envelope.\<close>

definition envelope :: "(string \<times> json) list \<Rightarrow> string + json" where
  "envelope kvs = Inr (JObj [(''response'', JObj kvs)])"

text \<open>
  A reply whose envelope holds every field a \<^verbatim>\<open>WAPIResponse\<close> is built from, with
  the integer code 1000, followed by the given further items.
\<close>

definition ok_envelope :: "(string \<times> json) list \<Rightarrow> string + json" where
  "ok_envelope extra =
     envelope ([(''code'', JInt 1000), (''result'', JStr ''OK''), (''timestamp'', JInt 1700000000),
                (''clTRID'', JStr ''''), (''svTRID'', JStr ''1700000000.1234''),
                (''command'', JStr '''')] @ extra)"

text \<open>The row dictionary of the round-trip example, with the given record type text.\<close>

definition example_row :: "string \<Rightarrow> json" where
  "example_row rdtype =
     JObj [(''ID'', JStr ''5''), (''name'', JStr ''www''), (''ttl'', JStr ''1800''),
           (''rdtype'', JStr rdtype), (''rdata'', JStr ''1.2.3.4''),
           (''changed_date'', JStr ''2024-01-01 00:00:00''), (''author_comment'', JStr '''')]"

section \<open>Properties\<close>

subsection \<open>The library functions on examples\<close>

text \<open>
  Values that the interpreter gives (CPython 3.11 on Linux), replayed on the model:
  single digits and several blanks in a date, the leap day, text after the match, the
  second 60 that the pattern admits and \<^verbatim>\<open>datetime\<close> refuses, a year below 1000
  printed without padding, and the underscores and signs of \<^verbatim>\<open>int\<close>.
\<close>

lemmas strptime_eval =
  strptime_def date_matches_def group_Y_def group_m_def group_d_def group_H_def
  group_M_def group_S_def pat1_def pat2_def one_of_def lit_def blanks_def re_space_def
  is_digit_def digit_val_def days_in_month_def is_leap_def

lemmas int_of_str_eval = int_of_str_def int_space_def digit_val_def is_digit_def

lemma strptime_single_digits:
  "strptime (''2024-1-1  '' @ [CHR 0x09] @ '' 7:08:09'') =
     Inr \<lparr>year = 2024, month = 1, day = 1, hour = 7, minute = 8, second = 9\<rparr>"
  by (simp add: strptime_eval)

lemma strptime_blank_day:
  "strptime ''2024-01- 1 00:00:00'' =
     Inr \<lparr>year = 2024, month = 1, day = 1, hour = 0, minute = 0, second = 0\<rparr>"
  by (simp add: strptime_eval)

lemma strptime_leap_day:
  "strptime ''2024-02-29 00:00:00'' =
     Inr \<lparr>year = 2024, month = 2, day = 29, hour = 0, minute = 0, second = 0\<rparr>
   \<and> strptime ''2023-02-29 00:00:00'' = Inl ValueError"
  by (simp add: strptime_eval)

lemma strptime_refused:
  "strptime ''2024-01-01 00:00:077'' = Inl ValueError
   \<and> strptime ''2024-01-01 00:00:60'' = Inl ValueError
   \<and> strptime ''2024-01-01 24:00:00'' = Inl ValueError
   \<and> strptime ''2024-011-01 00:00:00'' = Inl ValueError
   \<and> strptime ''0000-01-01 00:00:00'' = Inl ValueError
   \<and> strptime '' 2024-01-01 00:00:00'' = Inl ValueError"
  by (simp add: strptime_eval)

lemma strftime_short_year:
  "strptime ''0999-12-31 23:59:59'' =
     Inr \<lparr>year = 999, month = 12, day = 31, hour = 23, minute = 59, second = 59\<rparr>
   \<and> strftime \<lparr>year = 999, month = 12, day = 31, hour = 23, minute = 59, second = 59\<rparr> =
       ''999-12-31 23:59:59''"
  by (simp add: strptime_eval strftime_def pad2_def str_nat.simps digit_char_def)

lemma int_of_str_examples:
  "int_of_str '' +5 '' = Inr 5 \<and> int_of_str ''1_0'' = Inr 10 \<and> int_of_str ''-12'' = Inr (- 12)
   \<and> int_of_str ''1__0'' = Inl ValueError \<and> int_of_str ''_1'' = Inl ValueError
   \<and> int_of_str ''- 5'' = Inl ValueError \<and> int_of_str '''' = Inl ValueError"
  by (simp add: int_of_str_eval)

subsection \<open>What one request does\<close>

lemma make_request_fst:
  "fst (make_request self command data command_id w) =
     (case reply_to self command data command_id w of
        Inl exn \<Rightarrow> Inl (TransportError exn)
      | Inr body \<Rightarrow> and_then (subscript body ''response'') decode_response)"
  by (simp add: make_request_def post_def reply_to_def Let_def split: sum.splits)

lemma make_request_snd:
  "snd (make_request self command data command_id w) =
     w\<lparr>posted := posted w @ [wire_post (build_request self command data command_id w)]\<rparr>"
  by (simp add: make_request_def post_def Let_def split: sum.splits)

text \<open>
  Claim C3 says that the \<^verbatim>\<open>clTRID\<close> field of the posted envelope is the
  \<^verbatim>\<open>command_id\<close> argument. The code fills it from \<^verbatim>\<open>request.command\<close>: whatever
  the \<^verbatim>\<open>command_id\<close>, the one post that \<^verbatim>\<open>make_request\<close> adds to the log carries
  the document whose \<^verbatim>\<open>clTRID\<close> is the command. With command \<^verbatim>\<open>ping\<close> and
  \<^verbatim>\<open>command_id\<close> \<^verbatim>\<open>abc\<close> the field is \<^verbatim>\<open>ping\<close>.
\<close>

theorem make_request_clTRID_is_command:
  "posted (snd (make_request self command data command_id w)) =
     posted w @ [wire_post (build_request self command data command_id w)]
   \<and> snd (wire_post (build_request self command data command_id w)) =
       [(''request'', dumps (request_document (build_request self command data command_id w)))]
   \<and> and_then
        (subscript (request_document (build_request self command data command_id w)) ''request'')
        (\<lambda>r. subscript r ''clTRID'') = Inr (JStr command)
   \<and> and_then
        (subscript (request_document (build_request self ''ping'' data (Some ''abc'') w)) ''request'')
        (\<lambda>r. subscript r ''clTRID'') = Inr (JStr ''ping'')"
  by (simp add: make_request_snd wire_post_def request_document_def build_request_def and_then_def)

text \<open>
  Claim C8: \<^verbatim>\<open>open_domain(name)\<close> is pure construction. The world after the call is
  the world before it (so no post is added to the log and no client changes), and the
  handle it returns has the given name and refers to the client it was called on.
\<close>

theorem open_domain_pure:
  "snd (open_domain self domain w) = w
   \<and> posted (snd (open_domain self domain w)) = posted w
   \<and> objects (snd (open_domain self domain w)) = objects w
   \<and> domain_name (fst (open_domain self domain w)) = JStr domain
   \<and> dom_api (fst (open_domain self domain w)) = self"
  by (simp add: open_domain_def domain_name_def)

text \<open>
  Claim C9: when the response envelope is a dictionary without the key \<^verbatim>\<open>code\<close>,
  \<^verbatim>\<open>make_request\<close> reads the code as \<^verbatim>\<open>'3000'\<close> and raises \<^verbatim>\<open>WAPIError\<close>
  whose message is \<^verbatim>\<open>WAPI error: \<close> followed by the envelope as JSON text.
\<close>

theorem missing_code_raises:
  assumes "reply_to self command data command_id w = Inr body"
    and "subscript body ''response'' = Inr (JObj kvs)"
    and "map_of kvs ''code'' = None"
  shows "get (JObj kvs) ''code'' (JStr ''3000'') = Inr (JStr ''3000'')
         \<and> fst (make_request self command data command_id w) =
             Inl (WAPIError (''WAPI error: '' @ dumps (JObj kvs)))"
  using assms
  by (simp add: make_request_fst and_then_def decode_response_def startswith_def str_def)

theorem missing_code_raises_witness:
  "fst (make_request 0 ''ping'' None None (example_world (envelope [(''result'', JStr ''ERROR'')])))
     = Inl (WAPIError (''WAPI error: {'' @ [CHR 0x22] @ ''result'' @ [CHR 0x22] @ '': ''
                         @ [CHR 0x22] @ ''ERROR'' @ [CHR 0x22] @ ''}''))"
  using missing_code_raises [where self = 0 and command = "''ping''" and data = None
      and command_id = None and w = "example_world (envelope [(''result'', JStr ''ERROR'')])"
      and body = "JObj [(''response'', JObj [(''result'', JStr ''ERROR'')])]"
      and kvs = "[(''result'', JStr ''ERROR'')]"]
  by (simp add: reply_to_def example_world_def envelope_def dumps_str_def dumps_char_def)

subsection \<open>Success and failure of a request\<close>

lemma decode_response_error:
  assumes "get resp ''code'' (JStr ''3000'') = Inr c" and "\<not> startswith (str c) ''1''"
  shows "decode_response resp = Inl (WAPIError (''WAPI error: '' @ dumps resp))"
  using assms by (simp add: decode_response_def and_then_def)

lemma decode_response_success_iff:
  assumes "get resp ''code'' (JStr ''3000'') = Inr c"
  shows "(\<exists>r. decode_response resp = Inr r) \<longleftrightarrow>
           startswith (str c) ''1''
           \<and> list_all (\<lambda>k. \<exists>v. subscript resp k = Inr v)
                 [''result'', ''timestamp'', ''clTRID'', ''svTRID'', ''command'']
           \<and> (\<exists>t i. get resp ''test'' (JInt 0) = Inr t \<and> int_of t = Inr i)"
proof -
  obtain kvs where resp: "resp = JObj kvs"
    using assms by (cases resp) simp_all
  show ?thesis
    using assms unfolding resp
    by (auto simp: decode_response_def and_then_def startswith_def str_def split: option.splits sum.splits if_splits)
qed

text \<open>
  Claim C1 says that \<^verbatim>\<open>make_request\<close> returns a response exactly when the text of
  the status code starts with \<^verbatim>\<open>1\<close>. The envelope \<^verbatim>\<open>{"code": "1000"}\<close> has such a
  code, and the call raises \<^verbatim>\<open>KeyError\<close> for the missing \<^verbatim>\<open>result\<close>.
\<close>

theorem make_request_incomplete_envelope:
  "startswith (str (JStr ''1000'')) ''1''
   \<and> fst (make_request 0 ''ping'' None None (example_world (envelope [(''code'', JStr ''1000'')])))
       = Inl (KeyError ''result'')"
  by (simp add: make_request_fst reply_to_def example_world_def envelope_def and_then_def
        decode_response_def startswith_def str_def)

text \<open>
  Claim C1 as the code has it. For a reply whose \<^verbatim>\<open>response\<close> is a dictionary
  with status code \<open>c\<close> (\<^verbatim>\<open>'3000'\<close> when the key is missing), \<^verbatim>\<open>make_request\<close>
  returns a response exactly when the text of \<open>c\<close> starts with \<^verbatim>\<open>1\<close>, the envelope
  holds \<^verbatim>\<open>result\<close>, \<^verbatim>\<open>timestamp\<close>, \<^verbatim>\<open>clTRID\<close>, \<^verbatim>\<open>svTRID\<close> and
  \<^verbatim>\<open>command\<close>, and \<^verbatim>\<open>int\<close> accepts the \<^verbatim>\<open>test\<close> field (0 when missing). When the
  text of \<open>c\<close> does not start with \<^verbatim>\<open>1\<close> it raises \<^verbatim>\<open>WAPIError\<close> with the
  whole envelope as JSON text in the message.
\<close>

theorem make_request_success_iff:
  assumes "reply_to self command data command_id w = Inr body"
    and "subscript body ''response'' = Inr resp"
    and "get resp ''code'' (JStr ''3000'') = Inr c"
  shows "((\<exists>r. fst (make_request self command data command_id w) = Inr r) \<longleftrightarrow>
            startswith (str c) ''1''
            \<and> list_all (\<lambda>k. \<exists>v. subscript resp k = Inr v)
                  [''result'', ''timestamp'', ''clTRID'', ''svTRID'', ''command'']
            \<and> (\<exists>t i. get resp ''test'' (JInt 0) = Inr t \<and> int_of t = Inr i))
         \<and> (\<not> startswith (str c) ''1'' \<longrightarrow>
              fst (make_request self command data command_id w) =
                Inl (WAPIError (''WAPI error: '' @ dumps resp)))"
  using assms decode_response_success_iff [OF assms(3)] decode_response_error [OF assms(3)]
  by (simp add: make_request_fst and_then_def)

theorem make_request_success_iff_witness:
  "fst (make_request 0 ''ping'' None None
          (example_world (envelope [(''code'', JStr ''2999''), (''result'', JStr ''ERROR'')])))
     = Inl (WAPIError (''WAPI error: {'' @ [CHR 0x22] @ ''code'' @ [CHR 0x22] @ '': ''
                         @ [CHR 0x22] @ ''2999'' @ [CHR 0x22] @ '', '' @ [CHR 0x22] @ ''result''
                         @ [CHR 0x22] @ '': '' @ [CHR 0x22] @ ''ERROR'' @ [CHR 0x22] @ ''}''))
   \<and> \<not> (\<exists>r. fst (make_request 0 ''ping'' None None
          (example_world (envelope [(''code'', JStr ''2999''), (''result'', JStr ''ERROR'')])))
        = Inr r)"
  using make_request_success_iff [where self = 0 and command = "''ping''" and data = None
      and command_id = None
      and w = "example_world (envelope [(''code'', JStr ''2999''), (''result'', JStr ''ERROR'')])"
      and body = "JObj [(''response'', JObj [(''code'', JStr ''2999''), (''result'', JStr ''ERROR'')])]"
      and resp = "JObj [(''code'', JStr ''2999''), (''result'', JStr ''ERROR'')]"
      and c = "JStr ''2999''"]
  by (simp add: reply_to_def example_world_def envelope_def startswith_def str_def
        dumps_str_def dumps_char_def)

text \<open>A complete envelope with code \<^verbatim>\<open>"1000"\<close> is a success.\<close>

lemma make_request_success_example:
  "fst (make_request 0 ''ping'' None None
          (example_world (envelope [(''code'', JStr ''1000''), (''result'', JStr ''OK''),
             (''timestamp'', JInt 1700000000), (''clTRID'', JStr ''ping''),
             (''svTRID'', JStr ''1700000000.1234''), (''command'', JStr ''ping'')])))
     = Inr \<lparr>resp_code = JStr ''1000'', resp_result = JStr ''OK'',
            resp_timestamp = JInt 1700000000, resp_command_id = JStr ''ping'',
            resp_server_command_id = JStr ''1700000000.1234'', resp_command = JStr ''ping'',
            resp_data = JNull, resp_test = False\<rparr>"
  by (simp add: make_request_fst reply_to_def example_world_def envelope_def and_then_def
        decode_response_def startswith_def str_def)

subsection \<open>\<^verbatim>\<open>ping\<close>\<close>

lemma ping_cases:
  "ping self w =
     (case fst (make_request self ''ping'' None None w) of
        Inr r \<Rightarrow> Inr True
      | Inl (WAPIError m) \<Rightarrow> Inr False
      | Inl e \<Rightarrow> Inl e,
      snd (make_request self ''ping'' None None w))"
  by (cases "make_request self ''ping'' None None w")
     (simp add: ping_def split: sum.splits error.splits)

lemma subscript_not_WAPIError: "subscript v k \<noteq> Inl (WAPIError m)"
  by (cases v) (simp_all split: option.splits)

lemma get_not_WAPIError: "get v k d \<noteq> Inl (WAPIError m)"
  by (cases v) (simp_all split: option.splits)

lemma int_of_not_WAPIError: "int_of v \<noteq> Inl (WAPIError m)"
  by (cases v) (simp_all add: int_of_str_def Let_def split: option.splits)

lemma decode_response_WAPIError_iff:
  "(decode_response resp = Inl (WAPIError m)) \<longleftrightarrow>
     (\<exists>c. get resp ''code'' (JStr ''3000'') = Inr c \<and> \<not> startswith (str c) ''1''
          \<and> m = ''WAPI error: '' @ dumps resp)"
proof (cases "get resp ''code'' (JStr ''3000'')")
  case (Inl e)
  then show ?thesis
    using get_not_WAPIError [of resp "''code''" "JStr ''3000''" m]
    by (simp add: decode_response_def and_then_def)
next
  case (Inr c)
  show ?thesis
  proof (cases "startswith (str c) ''1''")
    case False
    with Inr show ?thesis by (auto simp: decode_response_def and_then_def)
  next
    case True
    have "decode_response resp \<noteq> Inl (WAPIError m)"
      using Inr True subscript_not_WAPIError [of resp _ m] get_not_WAPIError [of resp _ _ m]
        int_of_not_WAPIError [of _ m]
      by (auto simp: decode_response_def and_then_def split: sum.splits)
    with Inr True show ?thesis by simp
  qed
qed

lemma make_request_WAPIError_iff:
  "(\<exists>m. fst (make_request self command data command_id w) = Inl (WAPIError m)) \<longleftrightarrow>
     (\<exists>body resp c. reply_to self command data command_id w = Inr body
        \<and> subscript body ''response'' = Inr resp
        \<and> get resp ''code'' (JStr ''3000'') = Inr c \<and> \<not> startswith (str c) ''1'')"
proof (cases "reply_to self command data command_id w")
  case (Inl exn)
  then show ?thesis by (simp add: make_request_fst)
next
  case (Inr body)
  show ?thesis
  proof (cases "subscript body ''response''")
    case (Inl e)
    then show ?thesis
      using Inr subscript_not_WAPIError [of body "''response''"]
      by (simp add: make_request_fst and_then_def)
  next
    case resp: (Inr resp)
    show ?thesis
      using Inr resp decode_response_WAPIError_iff [of resp]
      by (auto simp: make_request_fst and_then_def)
  qed
qed

text \<open>
  Claim C4 says that \<^verbatim>\<open>ping\<close> is true whenever the server answers with a code that
  starts with \<^verbatim>\<open>1\<close>. For the envelope \<^verbatim>\<open>{"code": 1000, "result": "OK"}\<close> the
  \<^verbatim>\<open>KeyError\<close> of \<^verbatim>\<open>make_request\<close> for the missing \<^verbatim>\<open>timestamp\<close> leaves
  \<^verbatim>\<open>ping\<close>.
\<close>

theorem ping_incomplete_envelope:
  "startswith (str (JInt 1000)) ''1''
   \<and> fst (ping 0 (example_world (envelope [(''code'', JInt 1000), (''result'', JStr ''OK'')])))
       = Inl (KeyError ''timestamp'')"
  by (simp add: ping_cases make_request_fst reply_to_def example_world_def envelope_def
        and_then_def decode_response_def startswith_def str_def str_int_def str_nat.simps
        digit_char_def)

text \<open>
  Claim C4 as the code has it. \<^verbatim>\<open>ping\<close> is true exactly when \<^verbatim>\<open>make_request\<close>
  returns a response; it is false exactly when \<^verbatim>\<open>make_request\<close> raises
  \<^verbatim>\<open>WAPIError\<close>, which is exactly when the reply holds an envelope whose code does not
  start with \<^verbatim>\<open>1\<close>; every other exception of \<^verbatim>\<open>make_request\<close> leaves \<^verbatim>\<open>ping\<close>
  unchanged, a failure of the transport among them.
\<close>

theorem ping_outcomes:
  "(fst (ping self w) = Inr True) = (\<exists>r. fst (make_request self ''ping'' None None w) = Inr r)
   \<and> (fst (ping self w) = Inr False) =
       (\<exists>m. fst (make_request self ''ping'' None None w) = Inl (WAPIError m))
   \<and> (fst (ping self w) = Inr False) =
       (\<exists>body resp c. reply_to self ''ping'' None None w = Inr body
          \<and> subscript body ''response'' = Inr resp
          \<and> get resp ''code'' (JStr ''3000'') = Inr c \<and> \<not> startswith (str c) ''1'')
   \<and> (fst (ping self w) = Inl e) =
       (fst (make_request self ''ping'' None None w) = Inl e \<and> (\<forall>m. e \<noteq> WAPIError m))
   \<and> (reply_to self ''ping'' None None w = Inl exn \<longrightarrow>
        fst (ping self w) = Inl (TransportError exn))"
proof -
  let ?res = "fst (make_request self ''ping'' None None w)"
  have 1: "(fst (ping self w) = Inr True) = (\<exists>r. ?res = Inr r)"
    by (auto simp: ping_cases split: sum.splits error.splits)
  have 2: "(fst (ping self w) = Inr False) = (\<exists>m. ?res = Inl (WAPIError m))"
    by (auto simp: ping_cases split: sum.splits error.splits)
  have 4: "(fst (ping self w) = Inl e) = (?res = Inl e \<and> (\<forall>m. e \<noteq> WAPIError m))"
    by (auto simp: ping_cases split: sum.splits error.splits)
  have 5: "reply_to self ''ping'' None None w = Inl exn \<longrightarrow>
        fst (ping self w) = Inl (TransportError exn)"
    by (simp add: ping_cases make_request_fst)
  show ?thesis
    using 1 2 4 5 make_request_WAPIError_iff [of self "''ping''" None None w] by simp
qed

theorem ping_outcomes_witness:
  "fst (ping 0 (example_world (Inl ''ConnectionError''))) = Inl (TransportError ''ConnectionError'')
   \<and> fst (ping 0 (example_world (envelope [(''code'', JStr ''2999'')]))) = Inr False
   \<and> fst (ping 0 (example_world (ok_envelope []))) = Inr True"
  using ping_outcomes [where self = 0 and w = "example_world (Inl ''ConnectionError'')"
      and exn = "''ConnectionError''"]
  by (simp add: ping_cases make_request_fst reply_to_def example_world_def envelope_def
        ok_envelope_def and_then_def decode_response_def startswith_def str_def str_int_def
        str_nat.simps digit_char_def)

subsection \<open>Decoding of the enums\<close>




subsection \<open>The listing operations\<close>

lemma domains_fst:
  "fst (domains self w) =
     (case fst (make_request self ''dns-domains-list'' None None w) of
        Inl e \<Rightarrow> Inl e
      | Inr r \<Rightarrow>
          if \<not> truthy (resp_data r) then Inr []
          else and_then (subscript (resp_data r) ''domain'') (\<lambda>domains_dict.
                 if \<not> truthy domains_dict then Inr []
                 else and_then (values_of domains_dict) (map_result (domain_of_dict self))))"
  by (cases "make_request self ''dns-domains-list'' None None w")
     (simp add: domains_def Let_def split: sum.splits)

lemma domains_snd:
  "snd (domains self w) = snd (make_request self ''dns-domains-list'' None None w)"
  by (cases "make_request self ''dns-domains-list'' None None w")
     (simp add: domains_def Let_def split: sum.splits)

lemma records_fst:
  "fst (records d w) =
     (case fst (make_request (dom_api d) ''dns-rows-list''
                  (Some (JObj [(''domain'', dom_domain d)])) None w) of
        Inl e \<Rightarrow> Inl e
      | Inr r \<Rightarrow>
          if \<not> truthy (resp_data r) then Inr []
          else and_then (subscript (resp_data r) ''row'') (\<lambda>records_str.
                 if \<not> truthy records_str then Inr []
                 else and_then (iter records_str) (map_result row_dict_to_row)))"
  by (cases "make_request (dom_api d) ''dns-rows-list''
               (Some (JObj [(''domain'', dom_domain d)])) None w")
     (simp add: records_def Let_def split: sum.splits)

lemma records_snd:
  "snd (records d w) =
     snd (make_request (dom_api d) ''dns-rows-list'' (Some (JObj [(''domain'', dom_domain d)])) None w)"
  by (cases "make_request (dom_api d) ''dns-rows-list''
               (Some (JObj [(''domain'', dom_domain d)])) None w")
     (simp add: records_def Let_def split: sum.splits)

lemma records_as_dict_fst:
  "fst (records_as_dict d w) =
     (case fst (records d w) of Inl e \<Rightarrow> Inl e | Inr rs \<Rightarrow> Inr (map record_as_dict rs))"
  by (cases "records d w") (simp add: records_as_dict_def split: sum.splits)

lemma records_as_dict_snd: "snd (records_as_dict d w) = snd (records d w)"
  by (cases "records d w") (simp add: records_as_dict_def split: sum.splits)

lemma decode_response_data:
  assumes "decode_response resp = Inr r"
  shows "get resp ''data'' JNull = Inr (resp_data r)"
proof -
  obtain kvs where resp: "resp = JObj kvs"
    using assms by (cases resp) (simp_all add: decode_response_def and_then_def)
  show ?thesis
    using assms unfolding resp
    by (auto simp: decode_response_def and_then_def split: option.splits sum.splits if_splits)
qed

text \<open>
  Claim C7: when the request of a listing operation returns a response whose data is
  absent (or otherwise false in a condition), or whose \<^verbatim>\<open>domain\<close> or \<^verbatim>\<open>row\<close>
  collection is empty, \<^verbatim>\<open>domains\<close>, \<^verbatim>\<open>records\<close> and \<^verbatim>\<open>records_as_dict\<close> give
  the empty sequence and raise nothing. The data of a response decoded from an envelope
  without the key \<^verbatim>\<open>data\<close> is \<^verbatim>\<open>None\<close>.
\<close>

theorem listing_empty:
  "(fst (make_request self ''dns-domains-list'' None None w) = Inr r
      \<and> (\<not> truthy (resp_data r)
          \<or> (\<exists>c. subscript (resp_data r) ''domain'' = Inr c \<and> \<not> truthy c))
      \<longrightarrow> fst (domains self w) = Inr [])
   \<and> (fst (make_request (dom_api d) ''dns-rows-list''
              (Some (JObj [(''domain'', dom_domain d)])) None w) = Inr r'
      \<and> (\<not> truthy (resp_data r')
          \<or> (\<exists>c. subscript (resp_data r') ''row'' = Inr c \<and> \<not> truthy c))
      \<longrightarrow> fst (records d w) = Inr [] \<and> fst (records_as_dict d w) = Inr [])
   \<and> (decode_response (JObj kvs) = Inr r \<and> map_of kvs ''data'' = None
      \<longrightarrow> resp_data r = JNull \<and> \<not> truthy (resp_data r))"
proof (intro conjI impI)
  assume "fst (make_request self ''dns-domains-list'' None None w) = Inr r
      \<and> (\<not> truthy (resp_data r)
          \<or> (\<exists>c. subscript (resp_data r) ''domain'' = Inr c \<and> \<not> truthy c))"
  then show "fst (domains self w) = Inr []"
    by (auto simp: domains_fst and_then_def)
next
  assume h: "fst (make_request (dom_api d) ''dns-rows-list''
              (Some (JObj [(''domain'', dom_domain d)])) None w) = Inr r'
      \<and> (\<not> truthy (resp_data r')
          \<or> (\<exists>c. subscript (resp_data r') ''row'' = Inr c \<and> \<not> truthy c))"
  then show "fst (records d w) = Inr []"
    by (auto simp: records_fst and_then_def)
  then show "fst (records_as_dict d w) = Inr []"
    by (simp add: records_as_dict_fst)
next
  assume h: "decode_response (JObj kvs) = Inr r \<and> map_of kvs ''data'' = None"
  then have "resp_data r = JNull"
    using decode_response_data [of "JObj kvs" r] by simp
  then show "resp_data r = JNull" and "\<not> truthy (resp_data r)" by simp_all
qed

theorem listing_empty_witness:
  "fst (domains 0 (example_world (ok_envelope []))) = Inr []
   \<and> fst (records (fst (open_domain 0 ''example.com'' (example_world (ok_envelope []))))
           (example_world (ok_envelope [(''data'', JObj [(''row'', JArr [])])]))) = Inr []"
  using listing_empty [where self = 0 and w = "example_world (ok_envelope [])"
      and r = "\<lparr>resp_code = JInt 1000, resp_result = JStr ''OK'',
               resp_timestamp = JInt 1700000000, resp_command_id = JStr '''',
               resp_server_command_id = JStr ''1700000000.1234'', resp_command = JStr '''',
               resp_data = JNull, resp_test = False\<rparr>"]
    listing_empty [where d = "fst (open_domain 0 ''example.com'' (example_world (ok_envelope [])))"
      and w = "example_world (ok_envelope [(''data'', JObj [(''row'', JArr [])])])"
      and r' = "\<lparr>resp_code = JInt 1000, resp_result = JStr ''OK'',
               resp_timestamp = JInt 1700000000, resp_command_id = JStr '''',
               resp_server_command_id = JStr ''1700000000.1234'', resp_command = JStr '''',
               resp_data = JObj [(''row'', JArr [])], resp_test = False\<rparr>"]
  by (simp add: make_request_fst reply_to_def example_world_def ok_envelope_def envelope_def
        and_then_def decode_response_def startswith_def str_def str_int_def str_nat.simps
        digit_char_def open_domain_def)

subsection \<open>The state of the client\<close>

lemma make_request_objects:
  "objects (snd (make_request self command data command_id w)) = objects w"
  by (simp add: make_request_snd)

text \<open>
  Claim C10: every operation but \<^verbatim>\<open>set_test_mode\<close> leaves the store of clients as it
  was, whatever its result, so user, key and test flag of every client are unchanged.
  \<^verbatim>\<open>set_test_mode\<close> changes the test flag of the client it is called on and nothing
  else; the constructor fills a new client and leaves the others alone.
\<close>

theorem client_state_frame:
  "objects (snd (make_request self command data command_id w)) = objects w
   \<and> objects (snd (ping self w)) = objects w
   \<and> objects (snd (open_domain self domain w)) = objects w
   \<and> objects (snd (domains self w)) = objects w
   \<and> objects (snd (records d w)) = objects w
   \<and> objects (snd (records_as_dict d w)) = objects w
   \<and> objects (snd (add_record d name record_type content ttl w)) = objects w
   \<and> objects (snd (remove_record d record w)) = objects w
   \<and> objects (snd (commit d w)) = objects w
   \<and> wapi_user (objects (set_test_mode self enabled w) x) = wapi_user (objects w x)
   \<and> wapi_key (objects (set_test_mode self enabled w) x) = wapi_key (objects w x)
   \<and> wapi_test_mode (objects (set_test_mode self enabled w) x) =
       (if x = self then enabled else wapi_test_mode (objects w x))
   \<and> objects (snd (WAPI_init user key w)) (fst (WAPI_init user key w)) =
       \<lparr>wapi_key = key, wapi_user = user, wapi_test_mode = False\<rparr>
   \<and> (x \<noteq> fst (WAPI_init user key w) \<longrightarrow>
        objects (snd (WAPI_init user key w)) x = objects w x)"
proof -
  have ping: "objects (snd (ping self w)) = objects w"
    by (simp add: ping_cases make_request_objects)
  have add: "objects (snd (add_record d name record_type content ttl w)) = objects w"
    using make_request_objects
    by (simp add: add_record_def split: prod.splits sum.splits) (metis snd_conv)
  have remove: "objects (snd (remove_record d record w)) = objects w"
    using make_request_objects
    by (simp add: remove_record_def split: prod.splits sum.splits) (metis snd_conv)
  have commit: "objects (snd (commit d w)) = objects w"
    using make_request_objects
    by (simp add: commit_def split: prod.splits sum.splits) (metis snd_conv)
  show ?thesis
    using ping add remove commit
    by (simp add: make_request_objects open_domain_def domains_snd records_snd
          records_as_dict_snd set_test_mode_def WAPI_init_def)
qed

theorem client_state_frame_witness:
  "objects (snd (WAPI_init ''bob'' ''key'' (example_world (ok_envelope [])))) 0 = example_client
   \<and> fst (WAPI_init ''bob'' ''key'' (example_world (ok_envelope []))) = 1
   \<and> objects (snd (make_request 0 ''ping'' None None (example_world (ok_envelope [])))) 0
       = example_client"
  using client_state_frame [where x = 0 and user = "''bob''" and key = "''key''"
      and w = "example_world (ok_envelope [])" and self = 0 and command = "''ping''"
      and data = None and command_id = None]
  by (simp add: WAPI_init_def example_world_def)

subsection \<open>The round trip of a record\<close>

lemma int_of_str_5: "int_of_str ''5'' = Inr 5"
  by (simp add: int_of_str_eval)

lemma int_of_str_1800: "int_of_str ''1800'' = Inr 1800"
  by (simp add: int_of_str_eval)

lemma strptime_example:
  "strptime ''2024-01-01 00:00:00'' =
     Inr \<lparr>year = 2024, month = 1, day = 1, hour = 0, minute = 0, second = 0\<rparr>"
  by (simp add: strptime_eval)

lemma strftime_example:
  "strftime \<lparr>year = 2024, month = 1, day = 1, hour = 0, minute = 0, second = 0\<rparr> =
     ''2024-01-01 00:00:00''"
  by (simp add: strftime_def pad2_def str_nat.simps digit_char_def)

lemma str_to_record_type_A: "upper s = ''A'' \<Longrightarrow> str_to_record_type (JStr s) = Inr A"
  by (simp add: str_to_record_type_def and_then_def WAPIDomainRecordType_members_def)

text \<open>
  Claim C5: the example row, with a record type text that is \<^verbatim>\<open>A\<close> in any case,
  decodes to the record with id 5, ttl 1800, type \<^verbatim>\<open>A\<close> and timestamp
  2024-01-01T00:00:00; the dictionary form of that record has the date text
  \<^verbatim>\<open>2024-01-01 00:00:00\<close> and the type \<^verbatim>\<open>A\<close>; and \<^verbatim>\<open>records_as_dict\<close> gives
  that dictionary when the provider lists the row.
\<close>

theorem record_round_trip:
  assumes "upper rdtype = ''A''"
  shows "row_dict_to_row (example_row rdtype) =
           Inr \<lparr>rec_id = 5, rec_name = JStr ''www'', rec_ttl = 1800, rec_record_type = A,
                rec_content = JStr ''1.2.3.4'',
                rec_changed = \<lparr>year = 2024, month = 1, day = 1, hour = 0, minute = 0, second = 0\<rparr>,
                rec_author_comment = JStr ''''\<rparr>
         \<and> record_as_dict
             \<lparr>rec_id = 5, rec_name = JStr ''www'', rec_ttl = 1800, rec_record_type = A,
              rec_content = JStr ''1.2.3.4'',
              rec_changed = \<lparr>year = 2024, month = 1, day = 1, hour = 0, minute = 0, second = 0\<rparr>,
              rec_author_comment = JStr ''''\<rparr> =
             JObj [(''id'', JInt 5), (''name'', JStr ''www''), (''ttl'', JInt 1800),
                   (''record_type'', JStr ''A''), (''content'', JStr ''1.2.3.4''),
                   (''changed'', JStr ''2024-01-01 00:00:00''), (''author_comment'', JStr '''')]
         \<and> fst (records_as_dict d
                  (example_world (ok_envelope [(''data'', JObj [(''row'', JArr [example_row rdtype])])])))
             = Inr [JObj [(''id'', JInt 5), (''name'', JStr ''www''), (''ttl'', JInt 1800),
                          (''record_type'', JStr ''A''), (''content'', JStr ''1.2.3.4''),
                          (''changed'', JStr ''2024-01-01 00:00:00''),
                          (''author_comment'', JStr '''')]]"
proof -
  have row: "row_dict_to_row (example_row rdtype) =
           Inr \<lparr>rec_id = 5, rec_name = JStr ''www'', rec_ttl = 1800, rec_record_type = A,
                rec_content = JStr ''1.2.3.4'',
                rec_changed = \<lparr>year = 2024, month = 1, day = 1, hour = 0, minute = 0, second = 0\<rparr>,
                rec_author_comment = JStr ''''\<rparr>"
    using str_to_record_type_A [OF assms]
    by (simp add: row_dict_to_row_def example_row_def and_then_def int_of_str_5 int_of_str_1800
          strptime_example)
  have dict: "record_as_dict
             \<lparr>rec_id = 5, rec_name = JStr ''www'', rec_ttl = 1800, rec_record_type = A,
              rec_content = JStr ''1.2.3.4'',
              rec_changed = \<lparr>year = 2024, month = 1, day = 1, hour = 0, minute = 0, second = 0\<rparr>,
              rec_author_comment = JStr ''''\<rparr> =
             JObj [(''id'', JInt 5), (''name'', JStr ''www''), (''ttl'', JInt 1800),
                   (''record_type'', JStr ''A''), (''content'', JStr ''1.2.3.4''),
                   (''changed'', JStr ''2024-01-01 00:00:00''), (''author_comment'', JStr '''')]"
    using strftime_example by (simp add: record_as_dict_def)
  have "fst (records d
                  (example_world (ok_envelope [(''data'', JObj [(''row'', JArr [example_row rdtype])])])))
         = Inr [\<lparr>rec_id = 5, rec_name = JStr ''www'', rec_ttl = 1800, rec_record_type = A,
                rec_content = JStr ''1.2.3.4'',
                rec_changed = \<lparr>year = 2024, month = 1, day = 1, hour = 0, minute = 0, second = 0\<rparr>,
                rec_author_comment = JStr ''''\<rparr>]"
    using row
    by (simp add: records_fst make_request_fst reply_to_def example_world_def ok_envelope_def
          envelope_def and_then_def decode_response_def startswith_def str_def str_int_def
          str_nat.simps digit_char_def)
  then have api: "fst (records_as_dict d
                  (example_world (ok_envelope [(''data'', JObj [(''row'', JArr [example_row rdtype])])])))
             = Inr [JObj [(''id'', JInt 5), (''name'', JStr ''www''), (''ttl'', JInt 1800),
                          (''record_type'', JStr ''A''), (''content'', JStr ''1.2.3.4''),
                          (''changed'', JStr ''2024-01-01 00:00:00''),
                          (''author_comment'', JStr '''')]]"
    using dict by (simp add: records_as_dict_fst)
  from row dict api show ?thesis by simp
qed

theorem record_round_trip_witness:
  "row_dict_to_row (example_row ''a'') =
     Inr \<lparr>rec_id = 5, rec_name = JStr ''www'', rec_ttl = 1800, rec_record_type = A,
          rec_content = JStr ''1.2.3.4'',
          rec_changed = \<lparr>year = 2024, month = 1, day = 1, hour = 0, minute = 0, second = 0\<rparr>,
          rec_author_comment = JStr ''''\<rparr>
   \<and> fst (records_as_dict (fst (open_domain 0 ''example.com'' (example_world (ok_envelope []))))
            (example_world (ok_envelope [(''data'', JObj [(''row'', JArr [example_row ''a''])])])))
       = Inr [JObj [(''id'', JInt 5), (''name'', JStr ''www''), (''ttl'', JInt 1800),
                    (''record_type'', JStr ''A''), (''content'', JStr ''1.2.3.4''),
                    (''changed'', JStr ''2024-01-01 00:00:00''),
                    (''author_comment'', JStr '''')]]"
  using record_round_trip [where rdtype = "''a''"
      and d = "fst (open_domain 0 ''example.com'' (example_world (ok_envelope [])))"]
  by (simp add: upper_def upper_char_def)

subsection \<open>The authentication digest\<close>

text \<open>
  Evaluation of the hash by rewriting. A rotation of a numeral is reduced modulo
  \<open>2 ^ 32\<close> at once, which keeps the numerals of the eighty rounds short.
\<close>

lemma rotl_numeral:
  "rotl n (numeral k) =
     word_of_int (take_bit 32 (push_bit n (numeral k) OR drop_bit (32 - n) (take_bit 32 (numeral k))))"
  unfolding rotl_def
  by transfer (simp add: take_bit_push_bit take_bit_drop_bit)

lemma rotl_zero: "rotl n 0 = 0"
  by (simp add: rotl_def)

lemma rounds_80: "[0..<80] = 0 # 1 # [2..<80]"
  by (simp add: upt_conv_Cons numeral_2_eq_2 del: upt_rec_numeral)

lemma replicate_numeral: "replicate (numeral k) x = x # replicate (pred_numeral k) x"
  by (simp add: numeral_eq_Suc)

lemmas sha1_block_eval =
  sha1_block_def sha1_init_def rounds_80 rotl_numeral rotl_zero sha1_f_def sha1_k_def

lemmas sha1_words_eval =
  sha1_pad_def encode_utf8_def encode_char_def be_bytes64_def replicate_numeral

lemmas hexdigest_eval = hex32_def hex_digit_def

text \<open>The test vector of FIPS 180 for the message \<^verbatim>\<open>abc\<close>.\<close>

lemma sha1_abc_words:
  "be_words (sha1_pad (encode_utf8 ''abc'')) = [0x61626380, 0, 0, 0, 0, 0, 0, 0, 0, 0, 0, 0, 0, 0, 0, 0x18]"
  by (simp add: sha1_words_eval)

lemma sha1_abc_block:
  "sha1_block sha1_init [0x61626380, 0, 0, 0, 0, 0, 0, 0, 0, 0, 0, 0, 0, 0, 0, 0x18] =
     (0xa9993e36, 0x4706816a, 0xba3e2571, 0x7850c26c, 0x9cd0d89d)"
  by (simp add: sha1_block_eval)

lemma sha1_abc_hex:
  "hexdigest (0xa9993e36, 0x4706816a, 0xba3e2571, 0x7850c26c, 0x9cd0d89d) =
     ''a9993e364706816aba3e25717850c26c9cd0d89d''"
  by (simp add: hexdigest_eval)

lemma sha1_hex_abc: "sha1_hex ''abc'' = ''a9993e364706816aba3e25717850c26c9cd0d89d''"
  by (simp add: sha1_hex_def sha1_def sha1_abc_words sha1_abc_block sha1_abc_hex
        del: hexdigest.simps)

lemma sha1_secret_words:
  "be_words (sha1_pad (encode_utf8 ''secret'')) =
     [0x73656372, 0x65748000, 0, 0, 0, 0, 0, 0, 0, 0, 0, 0, 0, 0, 0, 0x30]"
  by (simp add: sha1_words_eval)

lemma sha1_secret_block:
  "sha1_block sha1_init [0x73656372, 0x65748000, 0, 0, 0, 0, 0, 0, 0, 0, 0, 0, 0, 0, 0, 0x30] =
     (0xe5e9fa1b, 0xa31ecd1a, 0xe84f75ca, 0xaa474f3a, 0x663f05f4)"
  by (simp add: sha1_block_eval)

lemma sha1_secret_hex:
  "hexdigest (0xe5e9fa1b, 0xa31ecd1a, 0xe84f75ca, 0xaa474f3a, 0x663f05f4) =
     ''e5e9fa1ba31ecd1ae84f75caaa474f3a663f05f4''"
  by (simp add: hexdigest_eval)

lemma sha1_hex_secret: "sha1_hex ''secret'' = ''e5e9fa1ba31ecd1ae84f75caaa474f3a663f05f4''"
  by (simp add: sha1_hex_def sha1_def sha1_secret_words sha1_secret_block sha1_secret_hex
        del: hexdigest.simps)

lemma sha1_alice_words:
  "be_words (sha1_pad (encode_utf8 ''alicee5e9fa1ba31ecd1ae84f75caaa474f3a663f05f409'')) =
     [0x616c6963, 0x65653565, 0x39666131, 0x62613331, 0x65636431, 0x61653834, 0x66373563,
      0x61616134, 0x37346633, 0x61363633, 0x66303566, 0x34303980, 0, 0, 0, 0x178]"
  by (simp add: sha1_words_eval)

lemma sha1_alice_block:
  "sha1_block sha1_init
     [0x616c6963, 0x65653565, 0x39666131, 0x62613331, 0x65636431, 0x61653834, 0x66373563,
      0x61616134, 0x37346633, 0x61363633, 0x66303566, 0x34303980, 0, 0, 0, 0x178] =
     (0xf6dc0cda, 0x1ab60c72, 0x1407aa0a, 0x7a00d6f6, 0x8c8003a0)"
  by (simp add: sha1_block_eval)

lemma sha1_alice_hex:
  "hexdigest (0xf6dc0cda, 0x1ab60c72, 0x1407aa0a, 0x7a00d6f6, 0x8c8003a0) =
     ''f6dc0cda1ab60c721407aa0a7a00d6f68c8003a0''"
  by (simp add: hexdigest_eval)

lemma sha1_hex_alice:
  "sha1_hex ''alicee5e9fa1ba31ecd1ae84f75caaa474f3a663f05f409'' =
     ''f6dc0cda1ab60c721407aa0a7a00d6f68c8003a0''"
  by (simp add: sha1_hex_def sha1_def sha1_alice_words sha1_alice_block sha1_alice_hex
        del: hexdigest.simps)

lemma hex_digit_range: "n < 16 \<Longrightarrow> hex_digit n \<in> set ''0123456789abcdef''"
proof -
  assume "n < 16"
  then have "n \<in> set [0..<16]" by simp
  then show ?thesis
    by (auto simp: hex_digit_def upt_conv_Cons)
qed

lemma nibble_bound: "unat ((x :: u32) AND 15) < 16"
proof -
  have "x AND 15 \<le> 15" by (rule word_and_le1)
  then have "unat (x AND 15) \<le> unat (15 :: u32)" by (simp add: word_le_nat_alt)
  then show ?thesis by simp
qed

lemma hex32_shape: "length (hex32 x) = 8 \<and> set (hex32 x) \<subseteq> set ''0123456789abcdef''"
  using hex_digit_range [OF nibble_bound] by (simp add: hex32_def)

lemma sha1_hex_shape: "length (sha1_hex s) = 40 \<and> set (sha1_hex s) \<subseteq> set ''0123456789abcdef''"
proof -
  obtain a b c d e where "sha1 (encode_utf8 s) = (a, b, c, d, e)"
    by (cases "sha1 (encode_utf8 s)") auto
  then show ?thesis
    using hex32_shape [of a] hex32_shape [of b] hex32_shape [of c] hex32_shape [of d]
      hex32_shape [of e]
    by (simp add: sha1_hex_def)
qed

text \<open>
  Claim C2: the digest is the SHA-1 of the UTF-8 bytes of user, hex digest of the SHA-1
  of the UTF-8 bytes of the key, and the hour on two digits, in this order; both digests
  are forty lowercase hexadecimal digits. The digest is a function of user, key and
  hour; for user \<^verbatim>\<open>alice\<close>, key \<^verbatim>\<open>secret\<close> and hour \<^verbatim>\<open>09\<close> it is
  \<^verbatim>\<open>f6dc0cda1ab60c721407aa0a7a00d6f68c8003a0\<close>.
\<close>

theorem get_auth_digest:
  "get_auth self w =
     sha1_hex (wapi_user (objects w self) @ sha1_hex (wapi_key (objects w self))
               @ pad2 (hour (now w)))
   \<and> sha1_hex (wapi_key (objects w self)) =
       hexdigest (sha1 (encode_utf8 (wapi_key (objects w self))))
   \<and> get_auth self w =
       hexdigest (sha1 (encode_utf8 (wapi_user (objects w self)
         @ sha1_hex (wapi_key (objects w self)) @ pad2 (hour (now w)))))
   \<and> length (pad2 (hour (now w))) = 2
   \<and> length (sha1_hex (wapi_key (objects w self))) = 40
   \<and> set (sha1_hex (wapi_key (objects w self))) \<subseteq> set ''0123456789abcdef''
   \<and> length (get_auth self w) = 40
   \<and> set (get_auth self w) \<subseteq> set ''0123456789abcdef''
   \<and> (wapi_user (objects w self) = ''alice'' \<and> wapi_key (objects w self) = ''secret''
        \<and> hour (now w) = 9
      \<longrightarrow> get_auth self w = ''f6dc0cda1ab60c721407aa0a7a00d6f68c8003a0'')"
proof -
  have kat: "wapi_user (objects w self) = ''alice'' \<and> wapi_key (objects w self) = ''secret''
        \<and> hour (now w) = 9
      \<longrightarrow> get_auth self w = ''f6dc0cda1ab60c721407aa0a7a00d6f68c8003a0''"
    using sha1_hex_alice
    by (simp add: get_auth_def strftime_H_def pad2_def digit_char_def sha1_hex_secret)
  show ?thesis
    using kat sha1_hex_shape [of "wapi_key (objects w self)"]
      sha1_hex_shape [of "wapi_user (objects w self) @ sha1_hex (wapi_key (objects w self))
               @ pad2 (hour (now w))"]
    by (simp add: get_auth_def strftime_H_def sha1_hex_def pad2_def)
qed

theorem get_auth_digest_witness:
  "get_auth 0 (example_world (ok_envelope [])) = ''f6dc0cda1ab60c721407aa0a7a00d6f68c8003a0''"
proof -
  have "wapi_user (objects (example_world (ok_envelope [])) 0) = ''alice''
        \<and> wapi_key (objects (example_world (ok_envelope [])) 0) = ''secret''
        \<and> hour (now (example_world (ok_envelope []))) = 9
      \<longrightarrow> get_auth 0 (example_world (ok_envelope [])) =
            ''f6dc0cda1ab60c721407aa0a7a00d6f68c8003a0''"
    using get_auth_digest [where self = 0 and w = "example_world (ok_envelope [])"] by blast
  then show ?thesis
    by (simp add: example_world_def example_client_def)
qed

end
